theory Spec2Isabelle
  imports Main "HOL-Library.Sublist"
begin

section \<open>The offline cache controller of the portfolio site (service worker)\<close>

text \<open>
  The worker script (\<^verbatim>\<open>src/unnamed/part_000\<close>) intercepts same-origin GET requests,
  classifies them by the shape of the path and serves each class with its own
  cache/network strategy. The embedding below follows the script function by function.
  Asynchronous functions become functions from the worker state to an outcome and the
  new state; what the host does (network, cache storage) is an explicit environment.

  Conventions of the embedding:
  \<^item> a promise is represented by how it settles: with a value, with an error, or never;
  \<^item> the awaited operations of one handler take effect in program order;
  \<^item> the script never awaits \<^verbatim>\<open>cache.put\<close>: the put has to read the body of the response
    first, so its entry lands after the awaited operations that follow it in the handler
    (the eviction step lists the keys without the new entry), and a put that the cache
    rejects stores nothing and is not noticed by the handler. The state a handler returns
    is the one reached once its put has settled;
  \<^item> handlers of different requests are not interleaved;
  \<^item> a failure of the cache storage is a \<^verbatim>\<open>caches.open\<close> that rejects;
  \<^item> a stored response is found by the URL of the request alone.
\<close>

subsection \<open>Requests, responses, outcomes\<close>

datatype url = URL (origin: string) (pathname: string) (search: string)

datatype request = Request (request_method: string) (url: url)

datatype response =
  Response (status: nat) (statusText: string) (headers: "(string \<times> string) list") (body: string)

text \<open>\<^verbatim>\<open>Response.ok\<close> of the Fetch standard: the status is in the range 200 to 299.\<close>

definition ok :: "response \<Rightarrow> bool" where
  "ok r = (200 \<le> status r \<and> status r \<le> 299)"

datatype error = NetworkError | NetworkTimeout | CacheError | TypeError

text \<open>A promise settles with a value, settles with an error, or never settles.\<close>

datatype 'a outcome = Returned 'a | Thrown error | Pending

subsection \<open>String operations of the script\<close>

definition endsWith :: "string \<Rightarrow> string \<Rightarrow> bool" where
  "endsWith s suf = (length suf \<le> length s \<and> drop (length s - length suf) s = suf)"

fun startsWith :: "string \<Rightarrow> string \<Rightarrow> bool" where
  "startsWith s [] = True"
| "startsWith [] (c # cs) = False"
| "startsWith (x # xs) (c # cs) = (x = c \<and> startsWith xs cs)"

fun includes_str :: "string \<Rightarrow> string \<Rightarrow> bool" where
  "includes_str [] t = (t = [])"
| "includes_str (x # xs) t = (startsWith (x # xs) t \<or> includes_str xs t)"

text \<open>Header names compare without regard to case; a header value is a list of field
  values separated by commas, each without the spaces and tabs around it.\<close>

definition ascii_lower :: "char \<Rightarrow> char" where
  "ascii_lower c =
     (if 65 \<le> (of_char c :: nat) \<and> (of_char c :: nat) \<le> 90 then char_of (of_char c + 32 :: nat)
      else c)"

fun split_on :: "char \<Rightarrow> string \<Rightarrow> string list" where
  "split_on c [] = [[]]"
| "split_on c (x # xs) =
     (if x = c then [] # split_on c xs
      else (case split_on c xs of [] \<Rightarrow> [[x]] | y # ys \<Rightarrow> (x # y) # ys))"

definition trim_http :: "string \<Rightarrow> string" where
  "trim_http v =
     rev (dropWhile (\<lambda>c. c = CHR '' '' \<or> c = CHR 0x09)
       (rev (dropWhile (\<lambda>c. c = CHR '' '' \<or> c = CHR 0x09) v)))"

definition field_values :: "string \<Rightarrow> string list" where
  "field_values v = map trim_http (split_on (CHR '','') v)"

text \<open>Decimal digits of a number, as a template literal prints it.\<close>

fun string_of_nat :: "nat \<Rightarrow> string" where
  "string_of_nat n =
     (if n < 10 then [''0123456789'' ! n]
      else string_of_nat (n div 10) @ [''0123456789'' ! (n mod 10)])"

fun join_lines :: "string list \<Rightarrow> string" where
  "join_lines [] = []"
| "join_lines [l] = l"
| "join_lines (l # ls) = l @ [CHR 0x0A] @ join_lines ls"

subsection \<open>Classification by path\<close>

text \<open>\<^verbatim>\<open>pathname.match(/\.(css|js|woff2?|ttf|eot)$/)\<close>: the pattern is anchored at the end of
  the input only, so it matches exactly when the path ends in one of the alternatives.\<close>

definition isStaticAsset :: "string \<Rightarrow> bool" where
  "isStaticAsset p =
     (endsWith p ''.css'' \<or> endsWith p ''.js'' \<or> endsWith p ''.woff'' \<or> endsWith p ''.woff2''
      \<or> endsWith p ''.ttf'' \<or> endsWith p ''.eot'')"

text \<open>\<^verbatim>\<open>pathname.match(/\.(jpg|jpeg|png|webp|svg|gif)$/)\<close>\<close>

definition isImage :: "string \<Rightarrow> bool" where
  "isImage p =
     (endsWith p ''.jpg'' \<or> endsWith p ''.jpeg'' \<or> endsWith p ''.png'' \<or> endsWith p ''.webp''
      \<or> endsWith p ''.svg'' \<or> endsWith p ''.gif'')"

definition isHTMLPage :: "string \<Rightarrow> bool" where
  "isHTMLPage p = (p = ''/'' \<or> endsWith p ''.html'' \<or> \<not> includes_str p ''.'')"

subsection \<open>Cache partitions and the host\<close>

text \<open>
  A cache partition of the host's cache storage: the stored responses by request URL (every
  intercepted request is a GET), in the order in which \<^verbatim>\<open>cache.keys()\<close> lists them, which is
  the order of insertion. \<^verbatim>\<open>cache.put\<close> replaces an entry of the same request: the old entry
  is removed and the new one is added at the end. \<^verbatim>\<open>cache.match\<close> only reads.
\<close>

type_synonym cache = "(url \<times> response) list"

definition cache_match :: "cache \<Rightarrow> url \<Rightarrow> response option" where
  "cache_match c u = map_of c u"

definition cache_delete :: "cache \<Rightarrow> url \<Rightarrow> cache" where
  "cache_delete c u = filter (\<lambda>e. fst e \<noteq> u) c"

definition cache_put :: "cache \<Rightarrow> url \<Rightarrow> response \<Rightarrow> cache" where
  "cache_put c u r = cache_delete c u @ [(u, r)]"

definition cache_keys :: "cache \<Rightarrow> url list" where
  "cache_keys c = map fst c"

text \<open>\<^verbatim>\<open>cache.put\<close> rejects a partial response (status 206) and a response whose
  \<^verbatim>\<open>Vary\<close> header lists \<open>*\<close>; nothing is stored then. (It also rejects a request that is
  not a GET over HTTP; the intercepted requests all are.)\<close>

definition put_rejects :: "response \<Rightarrow> bool" where
  "put_rejects r =
     (status r = 206
      \<or> list_ex (\<lambda>hd. map ascii_lower (fst hd) = ''vary'' \<and> ''*'' \<in> set (field_values (snd hd)))
           (headers r))"

datatype log_entry = Log string | Error string error

text \<open>The state of the worker: the partitions by name (a partition that was never written
  is empty), what was written to the console, and whether \<^verbatim>\<open>self.skipWaiting()\<close> was called.\<close>

record worker =
  caches :: "string \<Rightarrow> cache"
  console :: "log_entry list"
  skipWaiting_called :: bool

text \<open>What the network does with a request: it answers or fails after some milliseconds,
  or it never settles.\<close>

datatype net_outcome = Resolves nat response | Rejects nat | Never

text \<open>The host: the origin of the worker's location, the network, and the names of the
  partitions that \<^verbatim>\<open>caches.open\<close> fails to open (storage failure).\<close>

record host =
  location_origin :: string
  network :: "request \<Rightarrow> net_outcome"
  open_fails :: "string \<Rightarrow> bool"

definition console_log :: "worker \<Rightarrow> string \<Rightarrow> worker" where
  "console_log s m = s\<lparr>console := console s @ [Log m]\<rparr>"

definition console_error :: "worker \<Rightarrow> string \<Rightarrow> error \<Rightarrow> worker" where
  "console_error s m err = s\<lparr>console := console s @ [Error m err]\<rparr>"

text \<open>The write of an entry into the partition opened under a name.\<close>

definition put_in :: "worker \<Rightarrow> string \<Rightarrow> url \<Rightarrow> response \<Rightarrow> worker" where
  "put_in s name u r = s\<lparr>caches := (caches s)(name := cache_put (caches s name) u r)\<rparr>"

text \<open>\<^verbatim>\<open>cache.put(request, response.clone())\<close> as the script calls it, neither awaited nor
  caught: once it has settled, the entry is written, or the put was rejected and the
  partition is as it was.\<close>

definition put_unawaited :: "worker \<Rightarrow> string \<Rightarrow> url \<Rightarrow> response \<Rightarrow> worker" where
  "put_unawaited s name u r = (if put_rejects r then s else put_in s name u r)"

text \<open>A path given as a string denotes the GET request of that path on the worker's origin.\<close>

definition request_of_path :: "host \<Rightarrow> string \<Rightarrow> request" where
  "request_of_path h p = Request ''GET'' (URL (location_origin h) p [])"

subsection \<open>Constants of the script\<close>

definition STATIC_CACHE :: string where "STATIC_CACHE = ''portfolio-static-v1.1.0''"
definition DYNAMIC_CACHE :: string where "DYNAMIC_CACHE = ''portfolio-dynamic-v1.1.0''"
definition IMAGE_CACHE :: string where "IMAGE_CACHE = ''portfolio-images-v1.1.0''"

definition MAX_IMAGE_CACHE_SIZE :: nat where "MAX_IMAGE_CACHE_SIZE = 50"
definition MAX_DYNAMIC_CACHE_SIZE :: nat where "MAX_DYNAMIC_CACHE_SIZE = 30"

definition NETWORK_TIMEOUT :: nat where "NETWORK_TIMEOUT = 3000"

definition STATIC_ASSETS :: "string list" where
  "STATIC_ASSETS =
     [''/'', ''/index.html'', ''/project-detail.html'', ''/styles/main.css'', ''/scripts/main.js'',
      ''/scripts/utils/imageOptimization.js'', ''/scripts/utils/imageManifest.js'',
      ''/scripts/components/lightbox.js'', ''/scripts/components/pageTransitions.js'',
      ''/manifest.json'']"

definition CRITICAL_IMAGES :: "string list" where
  "CRITICAL_IMAGES =
     [''/assets/images/project-1-medium.webp'', ''/assets/images/project-1-medium.jpg'',
      ''/assets/images/project-2-medium.webp'', ''/assets/images/project-2-medium.jpg'',
      ''/assets/images/project-3-medium.webp'', ''/assets/images/project-3-medium.jpg'']"

text \<open>The pictographs of the console messages and of the offline page, as their UTF-8 bytes.\<close>

definition wrench :: string where "wrench = [CHR 0xF0, CHR 0x9F, CHR 0x94, CHR 0xA7]"
definition package :: string where "package = [CHR 0xF0, CHR 0x9F, CHR 0x93, CHR 0xA6]"
definition framed_picture :: string where
  "framed_picture = [CHR 0xF0, CHR 0x9F, CHR 0x96, CHR 0xBC, CHR 0xEF, CHR 0xB8, CHR 0x8F]"
definition check_mark :: string where "check_mark = [CHR 0xE2, CHR 0x9C, CHR 0x85]"
definition cross_mark :: string where "cross_mark = [CHR 0xE2, CHR 0x9D, CHR 0x8C]"
definition wastebasket :: string where
  "wastebasket = [CHR 0xF0, CHR 0x9F, CHR 0x97, CHR 0x91, CHR 0xEF, CHR 0xB8, CHR 0x8F]"
definition mobile_phone :: string where "mobile_phone = [CHR 0xF0, CHR 0x9F, CHR 0x93, CHR 0xB1]"

subsection \<open>Network access\<close>

text \<open>\<^verbatim>\<open>fetch(request)\<close>: waits for the network however long it takes.\<close>

definition fetch :: "host \<Rightarrow> request \<Rightarrow> response outcome" where
  "fetch h req =
     (case network h req of
        Resolves d r \<Rightarrow> Returned r
      | Rejects d \<Rightarrow> Thrown NetworkError
      | Never \<Rightarrow> Pending)"

text \<open>\<^verbatim>\<open>fetchWithTimeout\<close>: the race of the fetch against a timer that rejects after
  \<open>timeout\<close> milliseconds. The fetch wins when it settles no later than the timer.\<close>

definition fetchWithTimeout :: "host \<Rightarrow> request \<Rightarrow> nat \<Rightarrow> response outcome" where
  "fetchWithTimeout h req timeout =
     (case network h req of
        Resolves d r \<Rightarrow> if d \<le> timeout then Returned r else Thrown NetworkTimeout
      | Rejects d \<Rightarrow> if d \<le> timeout then Thrown NetworkError else Thrown NetworkTimeout
      | Never \<Rightarrow> Thrown NetworkTimeout)"

subsection \<open>Synthesized responses\<close>

text \<open>\<^verbatim>\<open>new Response(body, init)\<close> with a text body: the status defaults to 200 and the
  status text to the empty string; a body given as text gets the content type of plain text
  unless the headers of \<open>init\<close> name one.\<close>

definition new_Response :: "string \<Rightarrow> nat \<Rightarrow> string \<Rightarrow> (string \<times> string) list \<Rightarrow> response" where
  "new_Response b st txt hs =
     Response st txt
       (if map_of hs ''Content-Type'' = None
        then hs @ [(''Content-Type'', ''text/plain;charset=UTF-8'')] else hs) b"

definition placeholder_svg :: string where
  \<open>placeholder_svg = ''<svg width="400" height="300" xmlns="http://www.w3.org/2000/svg"><rect width="100%" height="100%" fill="#f3f4f6"/><text x="50%" y="50%" text-anchor="middle" dy=".3em" fill="#6b7280">Image unavailable</text></svg>''\<close>

definition offline_html :: string where
  \<open>offline_html = join_lines
     [''<!DOCTYPE html>'',
      ''    <html lang="en">'',
      ''    <head>'',
      ''      <meta charset="UTF-8">'',
      ''      <meta name="viewport" content="width=device-width, initial-scale=1.0">'',
      ''      <title>Offline - Rebecca Lee Jin Portfolio</title>'',
      ''      <style>'',
      ''        body { font-family: system-ui, sans-serif; text-align: center; padding: 2rem; }'',
      ''        .offline-message { max-width: 400px; margin: 0 auto; }'',
      ''        .offline-icon { font-size: 4rem; margin-bottom: 1rem; }'',
      ''      </style>'',
      ''    </head>'',
      ''    <body>'',
      ''      <div class="offline-message">'',
      ''        <div class="offline-icon">'' @ mobile_phone @ ''</div>'',
      ''        <h1>You're Offline</h1>'',
      ''        <p>This page isn't available offline. Please check your internet connection and try again.</p>'',
      ''        <button onclick="window.location.reload()">Try Again</button>'',
      ''      </div>'',
      ''    </body>'',
      ''    </html>'']\<close>

definition synthesized_placeholder :: response where
  "synthesized_placeholder =
     new_Response placeholder_svg 200 []
       [(''Content-Type'', ''image/svg+xml''), (''Cache-Control'', ''max-age=86400'')]"

definition synthesized_offline_page :: response where
  "synthesized_offline_page =
     new_Response offline_html 200 []
       [(''Content-Type'', ''text/html''), (''Cache-Control'', ''no-cache'')]"

subsection \<open>Eviction\<close>

definition limitCacheSize :: "host \<Rightarrow> worker \<Rightarrow> string \<Rightarrow> nat \<Rightarrow> unit outcome \<times> worker" where
  "limitCacheSize h s cacheName maxSize =
     (if open_fails h cacheName then (Thrown CacheError, s)
      else
        let keys = cache_keys (caches s cacheName) in
        if length keys > maxSize then
          let keysToDelete = take (length keys - maxSize) keys;
              s1 = s\<lparr>caches := (caches s)
                     (cacheName := fold (\<lambda>key c. cache_delete c key) keysToDelete (caches s cacheName))\<rparr>
          in (Returned (),
              console_log s1
                (wastebasket @ '' Service Worker: Trimmed '' @ string_of_nat (length keysToDelete)
                 @ '' items from '' @ cacheName))
        else (Returned (), s))"

subsection \<open>Fallback artefacts\<close>

definition getPlaceholderImage :: "host \<Rightarrow> worker \<Rightarrow> response outcome \<times> worker" where
  "getPlaceholderImage h s =
     (if open_fails h IMAGE_CACHE then (Thrown CacheError, s)
      else
        case cache_match (caches s IMAGE_CACHE)
               (url (request_of_path h ''/assets/images/placeholder.jpg'')) of
          Some placeholderResponse \<Rightarrow> (Returned placeholderResponse, s)
        | None \<Rightarrow> (Returned synthesized_placeholder, s))"

definition getOfflinePage :: "host \<Rightarrow> worker \<Rightarrow> response outcome \<times> worker" where
  "getOfflinePage h s =
     (if open_fails h STATIC_CACHE then (Thrown CacheError, s)
      else
        case cache_match (caches s STATIC_CACHE) (url (request_of_path h ''/'')) of
          Some offlineResponse \<Rightarrow> (Returned offlineResponse, s)
        | None \<Rightarrow> (Returned synthesized_offline_page, s))"

definition handleOfflineFallback :: "host \<Rightarrow> worker \<Rightarrow> request \<Rightarrow> response outcome \<times> worker" where
  "handleOfflineFallback h s req =
     (if isImage (pathname (url req)) then getPlaceholderImage h s
      else if isHTMLPage (pathname (url req)) then getOfflinePage h s
      else (Returned (new_Response ''Offline'' 503 ''Service Unavailable'' []), s))"

subsection \<open>The four strategies\<close>

text \<open>\<^verbatim>\<open>updateCacheInBackground\<close> is started without being awaited: the state returned is the
  one reached once the refresh has settled, and its failures are swallowed.\<close>

definition updateCacheInBackground :: "host \<Rightarrow> worker \<Rightarrow> request \<Rightarrow> string \<Rightarrow> worker" where
  "updateCacheInBackground h s req name =
     (case fetch h req of
        Returned networkResponse \<Rightarrow>
          if ok networkResponse then put_unawaited s name (url req) networkResponse else s
      | Thrown err \<Rightarrow> s
      | Pending \<Rightarrow> s)"

definition handleStaticAsset :: "host \<Rightarrow> worker \<Rightarrow> request \<Rightarrow> response outcome \<times> worker" where
  "handleStaticAsset h s req =
     (if open_fails h STATIC_CACHE then (Thrown CacheError, s)
      else
        case cache_match (caches s STATIC_CACHE) (url req) of
          Some cachedResponse \<Rightarrow>
            (Returned cachedResponse, updateCacheInBackground h s req STATIC_CACHE)
        | None \<Rightarrow>
            (case fetch h req of
               Returned networkResponse \<Rightarrow>
                 (Returned networkResponse,
                  if ok networkResponse
                  then put_unawaited s STATIC_CACHE (url req) networkResponse
                  else s)
             | Thrown err \<Rightarrow> (Thrown err, s)
             | Pending \<Rightarrow> (Pending, s)))"

definition handleImage :: "host \<Rightarrow> worker \<Rightarrow> request \<Rightarrow> response outcome \<times> worker" where
  "handleImage h s req =
     (if open_fails h IMAGE_CACHE then (Thrown CacheError, s)
      else
        case cache_match (caches s IMAGE_CACHE) (url req) of
          Some cachedResponse \<Rightarrow> (Returned cachedResponse, s)
        | None \<Rightarrow>
            (case fetchWithTimeout h req NETWORK_TIMEOUT of
               Returned networkResponse \<Rightarrow>
                 if ok networkResponse then
                   (case limitCacheSize h s IMAGE_CACHE MAX_IMAGE_CACHE_SIZE of
                      (Returned u, s2) \<Rightarrow>
                        (Returned networkResponse,
                         put_unawaited s2 IMAGE_CACHE (url req) networkResponse)
                    | (Thrown err, s2) \<Rightarrow>
                        (case getPlaceholderImage h s2 of
                           (res, s3) \<Rightarrow>
                             (res, put_unawaited s3 IMAGE_CACHE (url req) networkResponse))
                    | (Pending, s2) \<Rightarrow>
                        (Pending, put_unawaited s2 IMAGE_CACHE (url req) networkResponse))
                 else (Returned networkResponse, s)
             | Thrown err \<Rightarrow> getPlaceholderImage h s
             | Pending \<Rightarrow> (Pending, s)))"

definition handleHTMLPage :: "host \<Rightarrow> worker \<Rightarrow> request \<Rightarrow> response outcome \<times> worker" where
  "handleHTMLPage h s req =
     (if open_fails h DYNAMIC_CACHE then (Thrown CacheError, s)
      else
        case fetchWithTimeout h req NETWORK_TIMEOUT of
          Returned networkResponse \<Rightarrow>
            (Returned networkResponse,
             if ok networkResponse then put_unawaited s DYNAMIC_CACHE (url req) networkResponse
             else s)
        | Thrown err \<Rightarrow>
            (case cache_match (caches s DYNAMIC_CACHE) (url req) of
               Some cachedResponse \<Rightarrow> (Returned cachedResponse, s)
             | None \<Rightarrow> getOfflinePage h s)
        | Pending \<Rightarrow> (Pending, s))"

definition handleDynamic :: "host \<Rightarrow> worker \<Rightarrow> request \<Rightarrow> response outcome \<times> worker" where
  "handleDynamic h s req =
     (if open_fails h DYNAMIC_CACHE then (Thrown CacheError, s)
      else
        case fetchWithTimeout h req NETWORK_TIMEOUT of
          Returned networkResponse \<Rightarrow>
            if ok networkResponse then
              (case limitCacheSize h s DYNAMIC_CACHE MAX_DYNAMIC_CACHE_SIZE of
                 (Returned u, s2) \<Rightarrow>
                   (Returned networkResponse,
                    put_unawaited s2 DYNAMIC_CACHE (url req) networkResponse)
               | (Thrown err, s2) \<Rightarrow>
                   (case cache_match (caches s2 DYNAMIC_CACHE) (url req) of
                      Some cachedResponse \<Rightarrow>
                        (Returned cachedResponse,
                         put_unawaited s2 DYNAMIC_CACHE (url req) networkResponse)
                    | None \<Rightarrow>
                        (Returned (new_Response ''Offline'' 503 [] []),
                         put_unawaited s2 DYNAMIC_CACHE (url req) networkResponse))
               | (Pending, s2) \<Rightarrow>
                   (Pending, put_unawaited s2 DYNAMIC_CACHE (url req) networkResponse))
            else (Returned networkResponse, s)
        | Thrown err \<Rightarrow>
            (case cache_match (caches s DYNAMIC_CACHE) (url req) of
               Some cachedResponse \<Rightarrow> (Returned cachedResponse, s)
             | None \<Rightarrow> (Returned (new_Response ''Offline'' 503 [] []), s))
        | Pending \<Rightarrow> (Pending, s))"

subsection \<open>Routing\<close>

text \<open>The \<^verbatim>\<open>catch\<close> block of \<^verbatim>\<open>handleFetch\<close>: an error thrown by a strategy is written to
  the console and the offline fallback answers; what the fallback throws is not caught.\<close>

definition catch_fetch_error ::
  "host \<Rightarrow> request \<Rightarrow> response outcome \<times> worker \<Rightarrow> response outcome \<times> worker" where
  "catch_fetch_error h req res =
     (case res of
        (Thrown err, s1) \<Rightarrow>
          handleOfflineFallback h (console_error s1 ''Service Worker: Fetch error'' err) req
      | (Returned r, s1) \<Rightarrow> (Returned r, s1)
      | (Pending, s1) \<Rightarrow> (Pending, s1))"

definition handleFetch :: "host \<Rightarrow> worker \<Rightarrow> request \<Rightarrow> response outcome \<times> worker" where
  "handleFetch h s req =
     catch_fetch_error h req
       (if isStaticAsset (pathname (url req)) then handleStaticAsset h s req
        else if isImage (pathname (url req)) then handleImage h s req
        else if isHTMLPage (pathname (url req)) then handleHTMLPage h s req
        else handleDynamic h s req)"

text \<open>The fetch listener: a request that is not a GET or not of the worker's origin is
  left to the host (\<open>None\<close>); every other request is answered by \<^verbatim>\<open>handleFetch\<close>.\<close>

definition on_fetch :: "host \<Rightarrow> worker \<Rightarrow> request \<Rightarrow> (response outcome \<times> worker) option" where
  "on_fetch h s req =
     (if request_method req \<noteq> ''GET'' then None
      else if origin (url req) \<noteq> location_origin h then None
      else Some (handleFetch h s req))"

subsection \<open>Installation\<close>

text \<open>
  \<^verbatim>\<open>cache.addAll(paths)\<close> of the host: every path is fetched; the call rejects when a fetch
  fails or answers with a status that is not ok or with a response that \<^verbatim>\<open>cache.put\<close>
  rejects (status 206, \<^verbatim>\<open>Vary: *\<close>), and then writes nothing; it stays pending when no
  fetch fails but one never settles; otherwise every response is stored, in the order of
  the list.
\<close>

definition fetch_failed :: "net_outcome \<Rightarrow> bool" where
  "fetch_failed out =
     (case out of Resolves d r \<Rightarrow> \<not> ok r \<or> put_rejects r | Rejects d \<Rightarrow> True | Never \<Rightarrow> False)"

fun put_all :: "worker \<Rightarrow> string \<Rightarrow> (request \<times> net_outcome) list \<Rightarrow> worker" where
  "put_all s name [] = s"
| "put_all s name ((req, Resolves d r) # rest) = put_all (put_in s name (url req) r) name rest"
| "put_all s name ((req, out) # rest) = put_all s name rest"

definition addAll :: "host \<Rightarrow> worker \<Rightarrow> string \<Rightarrow> string list \<Rightarrow> unit outcome \<times> worker" where
  "addAll h s name paths =
     (let reqs = map (request_of_path h) paths;
          outs = map (network h) reqs
      in if list_ex fetch_failed outs then (Thrown TypeError, s)
         else if list_ex (\<lambda>out. out = Never) outs then (Pending, s)
         else (Returned (), put_all s name (zip reqs outs)))"

text \<open>\<^verbatim>\<open>Promise.all\<close> of two promises: rejected as soon as one of them is rejected, pending
  while none is rejected and one is pending.\<close>

fun promise_all :: "unit outcome \<Rightarrow> unit outcome \<Rightarrow> unit outcome" where
  "promise_all (Thrown err) b = Thrown err"
| "promise_all a (Thrown err) = Thrown err"
| "promise_all Pending b = Pending"
| "promise_all a Pending = Pending"
| "promise_all (Returned u) (Returned v) = Returned ()"

definition cache_static_assets :: "host \<Rightarrow> worker \<Rightarrow> unit outcome \<times> worker" where
  "cache_static_assets h s =
     (if open_fails h STATIC_CACHE then (Thrown CacheError, s)
      else addAll h (console_log s (package @ '' Service Worker: Caching static assets''))
             STATIC_CACHE STATIC_ASSETS)"

definition cache_critical_images :: "host \<Rightarrow> worker \<Rightarrow> unit outcome \<times> worker" where
  "cache_critical_images h s =
     (if open_fails h IMAGE_CACHE then (Thrown CacheError, s)
      else addAll h (console_log s (framed_picture @ '' Service Worker: Caching critical images''))
             IMAGE_CACHE (filter (\<lambda>url. url \<noteq> []) CRITICAL_IMAGES))"

text \<open>The install listener. The outcome is that of the promise handed to
  \<^verbatim>\<open>event.waitUntil\<close>: the chain \<^verbatim>\<open>Promise.all([...]).then(...).catch(...)\<close>. The
  \<^verbatim>\<open>then\<close> callback runs only when both writes succeeded; the \<^verbatim>\<open>catch\<close> callback logs
  the error and returns normally.\<close>

definition install :: "host \<Rightarrow> worker \<Rightarrow> unit outcome \<times> worker" where
  "install h s =
     (let s0 = console_log s (wrench @ '' Service Worker: Installing...'');
          (o1, s1) = cache_static_assets h s0;
          (o2, s2) = cache_critical_images h s1
      in case promise_all o1 o2 of
           Returned u \<Rightarrow>
             (Returned (),
              (console_log s2 (check_mark @ '' Service Worker: Installation complete''))
                \<lparr>skipWaiting_called := True\<rparr>)
         | Thrown err \<Rightarrow>
             (Returned (),
              console_error s2 (cross_mark @ '' Service Worker: Installation failed'') err)
         | Pending \<Rightarrow> (Pending, s2))"

subsection \<open>The classification as the specification words it\<close>

datatype strategy = CacheFirst | CacheFirstWithPlaceholder | NetworkFirstWithOfflinePage | NetworkFirst

text \<open>First match wins: a stylesheet, script or font extension; else an image extension;
  else the root, an HTML extension or no dot at all in the path; else generic content.\<close>

definition spec_classify :: "string \<Rightarrow> strategy" where
  "spec_classify p =
     (if list_ex (\<lambda>ext. suffix ext p) [''.css'', ''.js'', ''.woff'', ''.woff2'', ''.ttf'', ''.eot'']
      then CacheFirst
      else if list_ex (\<lambda>ext. suffix ext p)
                [''.jpg'', ''.jpeg'', ''.png'', ''.webp'', ''.svg'', ''.gif'']
      then CacheFirstWithPlaceholder
      else if p = ''/'' \<or> suffix ''.html'' p \<or> CHR ''.'' \<notin> set p
      then NetworkFirstWithOfflinePage
      else NetworkFirst)"

subsection \<open>Concrete hosts, workers and requests\<close>

definition example_origin :: string where
  "example_origin = ''https://portfolio.example''"

definition ok_response :: "string \<Rightarrow> response" where
  "ok_response b = Response 200 ''OK'' [(''Content-Type'', ''text/plain'')] b"

definition new_worker :: worker where
  "new_worker = \<lparr>caches = (\<lambda>name. []), console = [], skipWaiting_called = False\<rparr>"

text \<open>A host whose network answers every request after 20 ms with status 200 and the path
  as body.\<close>

definition online_host :: host where
  "online_host =
     \<lparr>location_origin = example_origin,
      network = (\<lambda>req. Resolves 20 (ok_response (pathname (url req)))),
      open_fails = (\<lambda>name. False)\<rparr>"

text \<open>A host whose network rejects every request at once.\<close>

definition offline_host :: host where
  "offline_host =
     \<lparr>location_origin = example_origin,
      network = (\<lambda>req. Rejects 0),
      open_fails = (\<lambda>name. False)\<rparr>"

text \<open>An offline host whose cache storage cannot be opened.\<close>

definition broken_storage_host :: host where
  "broken_storage_host =
     \<lparr>location_origin = example_origin,
      network = (\<lambda>req. Rejects 0),
      open_fails = (\<lambda>name. True)\<rparr>"

text \<open>A host whose network answers every request after 20 ms with a given response.\<close>

definition answering_host :: "response \<Rightarrow> host" where
  "answering_host r =
     \<lparr>location_origin = example_origin,
      network = (\<lambda>req. Resolves 20 r),
      open_fails = (\<lambda>name. False)\<rparr>"

definition not_modified :: response where
  "not_modified = Response 304 ''Not Modified'' [] []"

definition not_found :: response where
  "not_found = Response 404 ''Not Found'' [(''Content-Type'', ''text/plain'')] ''no such image''"

definition get :: "string \<Rightarrow> request" where
  "get p = Request ''GET'' (URL example_origin p [])"

text \<open>A worker whose dynamic partition holds 30 entries, its bound.\<close>

definition full_dynamic_worker :: worker where
  "full_dynamic_worker =
     new_worker\<lparr>caches := (\<lambda>name. [])
       (DYNAMIC_CACHE :=
          map (\<lambda>n. (URL example_origin (''/api/item/'' @ string_of_nat n) [], ok_response ''item''))
            [0..<30])\<rparr>"

text \<open>A host whose network never settles.\<close>

definition hanging_host :: host where
  "hanging_host =
     \<lparr>location_origin = example_origin,
      network = (\<lambda>req. Never),
      open_fails = (\<lambda>name. False)\<rparr>"

text \<open>A host whose network answers every request with status 200, after ten seconds.\<close>

definition slow_host :: host where
  "slow_host =
     \<lparr>location_origin = example_origin,
      network = (\<lambda>req. Resolves 10000 (ok_response (pathname (url req)))),
      open_fails = (\<lambda>name. False)\<rparr>"

text \<open>The worker after an installation on the answering network.\<close>

definition installed_worker :: worker where
  "installed_worker = snd (install online_host new_worker)"

definition partial_content :: response where
  "partial_content = Response 206 ''Partial Content'' [(''Content-Type'', ''text/css'')] ''body {''"

text \<open>The first \<open>n\<close> of a family of distinct image requests.\<close>

definition image_requests :: "nat \<Rightarrow> request list" where
  "image_requests n =
     map (\<lambda>i. get (''/assets/images/'' @ replicate i (CHR ''x'') @ ''.png'')) [0..<n]"

section \<open>Properties\<close>

subsection \<open>Properties of the classification\<close>

lemma endsWith_suffix: "endsWith s suf = suffix suf s"
proof
  assume "endsWith s suf"
  then have "s = take (length s - length suf) s @ suf"
    by (metis append_take_drop_id endsWith_def)
  then show "suffix suf s" by (metis suffixI)
next
  assume "suffix suf s"
  then obtain zs where "s = zs @ suf" by (auto simp: suffix_def)
  then show "endsWith s suf" by (simp add: endsWith_def)
qed

lemma includes_str_char: "includes_str p [c] = (c \<in> set p)"
  by (induction p) auto

lemma isStaticAsset_spec:
  "isStaticAsset p =
     list_ex (\<lambda>ext. suffix ext p) [''.css'', ''.js'', ''.woff'', ''.woff2'', ''.ttf'', ''.eot'']"
  by (simp add: isStaticAsset_def endsWith_suffix)

lemma isImage_spec:
  "isImage p =
     list_ex (\<lambda>ext. suffix ext p) [''.jpg'', ''.jpeg'', ''.png'', ''.webp'', ''.svg'', ''.gif'']"
  by (simp add: isImage_def endsWith_suffix)

lemma isHTMLPage_spec:
  "isHTMLPage p = (p = ''/'' \<or> suffix ''.html'' p \<or> CHR ''.'' \<notin> set p)"
  by (simp add: isHTMLPage_def endsWith_suffix includes_str_char)

text \<open>
  Claim C7: the classification of a same-origin GET request is first-match-wins in a fixed
  order: a path ending in a stylesheet, script or font extension is a static asset; otherwise
  a path ending in an image extension is an image; otherwise a path that is the root, ends
  in \<open>.html\<close> or contains no dot is an HTML page; every other path is generic content.
  \<^verbatim>\<open>handleFetch\<close> runs the one strategy that the classification of the specification
  names, so every path has exactly one of the four classes.
\<close>

theorem classification_first_match:
  "handleFetch h s req =
     catch_fetch_error h req
       (case spec_classify (pathname (url req)) of
          CacheFirst \<Rightarrow> handleStaticAsset h s req
        | CacheFirstWithPlaceholder \<Rightarrow> handleImage h s req
        | NetworkFirstWithOfflinePage \<Rightarrow> handleHTMLPage h s req
        | NetworkFirst \<Rightarrow> handleDynamic h s req)"
  unfolding handleFetch_def spec_classify_def isStaticAsset_spec isImage_spec isHTMLPage_spec
  by simp

theorem classification_first_match_witness:
  "handleFetch offline_host new_worker (get ''/theme.html.js'') =
     catch_fetch_error offline_host (get ''/theme.html.js'')
       (handleStaticAsset offline_host new_worker (get ''/theme.html.js''))
   \<and> handleFetch offline_host new_worker (get ''/photo.png'') =
     catch_fetch_error offline_host (get ''/photo.png'')
       (handleImage offline_host new_worker (get ''/photo.png''))
   \<and> handleFetch offline_host new_worker (get ''/about'') =
     catch_fetch_error offline_host (get ''/about'')
       (handleHTMLPage offline_host new_worker (get ''/about''))
   \<and> handleFetch offline_host new_worker (get ''/data.v2/feed.json'') =
     catch_fetch_error offline_host (get ''/data.v2/feed.json'')
       (handleDynamic offline_host new_worker (get ''/data.v2/feed.json''))"
  using classification_first_match [of offline_host new_worker "get ''/theme.html.js''"]
    classification_first_match [of offline_host new_worker "get ''/photo.png''"]
    classification_first_match [of offline_host new_worker "get ''/about''"]
    classification_first_match [of offline_host new_worker "get ''/data.v2/feed.json''"]
  by (simp add: spec_classify_def suffix_to_prefix get_def)

lemma static_not_image: "isStaticAsset p \<Longrightarrow> \<not> isImage p"
  unfolding isStaticAsset_spec isImage_spec
  by (auto simp: suffix_to_prefix prefix_def)

lemma suffix_has_char: "suffix xs p \<Longrightarrow> c \<in> set xs \<Longrightarrow> c \<in> set p"
  by (auto simp: suffix_def)

lemma static_not_html: "isStaticAsset p \<Longrightarrow> \<not> isHTMLPage p"
proof -
  assume a: "isStaticAsset p"
  then have "CHR ''.'' \<in> set p"
    unfolding isStaticAsset_spec by (auto dest: suffix_has_char [where c = "CHR ''.''"])
  moreover from a have "\<not> suffix ''.html'' p"
    unfolding isStaticAsset_spec by (auto simp: suffix_to_prefix prefix_def)
  moreover from a have "p \<noteq> ''/''"
    unfolding isStaticAsset_spec by (auto simp: suffix_to_prefix)
  ultimately show ?thesis by (simp add: isHTMLPage_spec)
qed

subsection \<open>Facts about the state\<close>

lemma cache_names_distinct [simp]:
  "STATIC_CACHE \<noteq> DYNAMIC_CACHE" "STATIC_CACHE \<noteq> IMAGE_CACHE" "DYNAMIC_CACHE \<noteq> IMAGE_CACHE"
  "DYNAMIC_CACHE \<noteq> STATIC_CACHE" "IMAGE_CACHE \<noteq> STATIC_CACHE" "IMAGE_CACHE \<noteq> DYNAMIC_CACHE"
  by (simp_all add: STATIC_CACHE_def DYNAMIC_CACHE_def IMAGE_CACHE_def)

lemma caches_console [simp]:
  "caches (console_log s m) = caches s" "caches (console_error s m err) = caches s"
  by (simp_all add: console_log_def console_error_def)

lemma cache_match_put:
  "cache_match (cache_put c u r) u' = (if u' = u then Some r else cache_match c u')"
  by (induction c) (auto simp: cache_match_def cache_put_def cache_delete_def)

lemma caches_put_in:
  "caches (put_in s name u r) name' =
     (if name' = name then cache_put (caches s name) u r else caches s name')"
  by (simp add: put_in_def)

lemma ok_response_storable [simp]: "ok (ok_response b)" "\<not> put_rejects (ok_response b)"
  by (simp_all add: ok_def put_rejects_def ok_response_def ascii_lower_def)

lemma caches_put_unawaited:
  "caches (put_unawaited s name u r) name' =
     (if name' = name \<and> \<not> put_rejects r then cache_put (caches s name) u r else caches s name')"
  by (simp add: put_unawaited_def put_in_def)

lemma put_in_fields [simp]:
  "skipWaiting_called (put_in s name u r) = skipWaiting_called s"
  "console (put_in s name u r) = console s"
  by (simp_all add: put_in_def)

lemma put_all_fields [simp]:
  "skipWaiting_called (put_all s name xs) = skipWaiting_called s"
  "console (put_all s name xs) = console s"
  by (induction s name xs rule: put_all.induct) simp_all

lemma put_all_other: "name' \<noteq> name \<Longrightarrow> caches (put_all s name xs) name' = caches s name'"
  by (induction s name xs rule: put_all.induct) (simp_all add: caches_put_in)

lemma addAll_fields [simp]:
  "skipWaiting_called (snd (addAll h s name paths)) = skipWaiting_called s"
  "console (snd (addAll h s name paths)) = console s"
  by (simp_all add: addAll_def Let_def)

lemma addAll_other:
  "name' \<noteq> name \<Longrightarrow> caches (snd (addAll h s name paths)) name' = caches s name'"
  by (simp add: addAll_def Let_def put_all_other)

lemma addAll_outcome: "fst (addAll h s name paths) = fst (addAll h s' name paths)"
  by (simp add: addAll_def Let_def)

lemma zip_requests:
  "zip (map f paths) (map (g \<circ> f) paths) = map (\<lambda>p. (f p, g (f p))) paths"
  by (induction paths) simp_all

lemma addAll_success:
  assumes "\<forall>p\<in>set paths.
      \<exists>d r. network h (request_of_path h p) = Resolves d r \<and> ok r \<and> \<not> put_rejects r"
  shows "addAll h s name paths =
    (Returned (),
     put_all s name (map (\<lambda>p. (request_of_path h p, network h (request_of_path h p))) paths))"
proof -
  have "\<not> list_ex fetch_failed (map (network h) (map (request_of_path h) paths))"
    using assms by (auto simp: list_ex_iff fetch_failed_def)
  moreover have "\<not> list_ex (\<lambda>out. out = Never) (map (network h) (map (request_of_path h) paths))"
    using assms by (auto simp: list_ex_iff)
  ultimately show ?thesis by (simp add: addAll_def Let_def zip_requests)
qed

lemma put_all_keeps:
  "p \<notin> set paths \<Longrightarrow>
   cache_match (caches (put_all s name
       (map (\<lambda>q. (request_of_path h q, network h (request_of_path h q))) paths)) name)
     (url (request_of_path h p)) = cache_match (caches s name) (url (request_of_path h p))"
proof (induction paths arbitrary: s)
  case Nil
  then show ?case by simp
next
  case (Cons q qs)
  then show ?case
    by (cases "network h (request_of_path h q)")
      (auto simp: caches_put_in cache_match_put request_of_path_def)
qed

lemma put_all_stores:
  "distinct paths \<Longrightarrow> p \<in> set paths \<Longrightarrow> network h (request_of_path h p) = Resolves d r \<Longrightarrow>
   cache_match (caches (put_all s name
       (map (\<lambda>q. (request_of_path h q, network h (request_of_path h q))) paths)) name)
     (url (request_of_path h p)) = Some r"
proof (induction paths arbitrary: s)
  case Nil
  then show ?case by simp
next
  case (Cons q qs)
  show ?case
  proof (cases "p = q")
    case True
    with Cons.prems show ?thesis
      by (simp add: put_all_keeps caches_put_in cache_match_put)
  next
    case False
    with Cons show ?thesis
      by (cases "network h (request_of_path h q)") auto
  qed
qed

subsection \<open>Properties of the installation\<close>

lemma install_success:
  assumes "\<not> open_fails h STATIC_CACHE" and "\<not> open_fails h IMAGE_CACHE"
    and st: "\<forall>p\<in>set STATIC_ASSETS.
      \<exists>d r. network h (request_of_path h p) = Resolves d r \<and> ok r \<and> \<not> put_rejects r"
    and im: "\<forall>p\<in>set CRITICAL_IMAGES.
      \<exists>d r. network h (request_of_path h p) = Resolves d r \<and> ok r \<and> \<not> put_rejects r"
  shows "fst (install h s) = Returned ()"
    and "skipWaiting_called (snd (install h s))"
    and "caches (snd (install h s)) STATIC_CACHE =
      caches (put_all s STATIC_CACHE
        (map (\<lambda>q. (request_of_path h q, network h (request_of_path h q))) STATIC_ASSETS))
        STATIC_CACHE"
proof -
  from im have im':
    "\<forall>p\<in>set (filter (\<lambda>url. url \<noteq> []) CRITICAL_IMAGES).
       \<exists>d r. network h (request_of_path h p) = Resolves d r \<and> ok r \<and> \<not> put_rejects r"
    by simp
  note eqs = addAll_success [OF st] addAll_success [OF im']
  show "fst (install h s) = Returned ()"
    using assms(1,2)
    by (simp add: install_def cache_static_assets_def cache_critical_images_def Let_def eqs)
  show "skipWaiting_called (snd (install h s))"
    using assms(1,2)
    by (simp add: install_def cache_static_assets_def cache_critical_images_def Let_def eqs)
  have same: "caches (put_all (console_log s0 m) STATIC_CACHE xs) STATIC_CACHE =
      caches (put_all s STATIC_CACHE xs) STATIC_CACHE" if "caches s0 = caches s" for s0 m xs
    using that
  proof (induction xs arbitrary: s0 s)
    case Nil
    then show ?case by simp
  next
    case (Cons x xs)
    obtain req out where x: "x = (req, out)" by (cases x)
    show ?case
    proof (cases out)
      case (Resolves d r)
      have "caches (put_all (console_log (put_in s0 STATIC_CACHE (url req) r) m) STATIC_CACHE xs) STATIC_CACHE
        = caches (put_all (put_in s STATIC_CACHE (url req) r) STATIC_CACHE xs) STATIC_CACHE"
        by (rule Cons.IH) (simp add: put_in_def Cons.prems)
      moreover have "console_log (put_in s0 STATIC_CACHE (url req) r) m =
          put_in (console_log s0 m) STATIC_CACHE (url req) r"
        by (simp add: put_in_def console_log_def)
      ultimately show ?thesis using x Resolves by simp
    next
      case (Rejects d)
      with x Cons show ?thesis by simp
    next
      case Never
      with x Cons show ?thesis by simp
    qed
  qed
  show "caches (snd (install h s)) STATIC_CACHE =
      caches (put_all s STATIC_CACHE
        (map (\<lambda>q. (request_of_path h q, network h (request_of_path h q))) STATIC_ASSETS))
        STATIC_CACHE"
    using assms(1,2)
    by (simp add: install_def cache_static_assets_def cache_critical_images_def Let_def eqs
        put_all_other same)
qed

lemma static_outcome: "fst (cache_static_assets h s) = fst (cache_static_assets h s')"
  using addAll_outcome [of h _ STATIC_CACHE STATIC_ASSETS]
  by (simp add: cache_static_assets_def)

lemma images_outcome: "fst (cache_critical_images h s) = fst (cache_critical_images h s')"
  using addAll_outcome [of h _ IMAGE_CACHE]
  by (simp add: cache_critical_images_def)

lemma static_fields [simp]:
  "skipWaiting_called (snd (cache_static_assets h s)) = skipWaiting_called s"
  by (simp add: cache_static_assets_def console_log_def)

lemma images_fields [simp]:
  "skipWaiting_called (snd (cache_critical_images h s)) = skipWaiting_called s"
  by (simp add: cache_critical_images_def console_log_def)

lemma promise_all_Returned:
  "promise_all a b = Returned u \<longleftrightarrow> a = Returned () \<and> b = Returned ()"
  by (cases a; cases b) simp_all

lemma promise_all_Thrown:
  "(\<exists>err. promise_all a b = Thrown err) \<longleftrightarrow> (\<exists>err. a = Thrown err) \<or> (\<exists>err. b = Thrown err)"
  by (cases a; cases b) simp_all

lemma cache_static_assets_other:
  "name \<noteq> STATIC_CACHE \<Longrightarrow> caches (snd (cache_static_assets h s)) name = caches s name"
  by (simp add: cache_static_assets_def addAll_other)

lemma cache_critical_images_other:
  "name \<noteq> IMAGE_CACHE \<Longrightarrow> caches (snd (cache_critical_images h s)) name = caches s name"
  by (simp add: cache_critical_images_def addAll_other)

lemma install_other:
  assumes "name \<noteq> STATIC_CACHE" and "name \<noteq> IMAGE_CACHE"
  shows "caches (snd (install h s)) name = caches s name"
proof -
  define s0 where "s0 = console_log s (wrench @ '' Service Worker: Installing...'')"
  obtain o1 s1 where r1: "cache_static_assets h s0 = (o1, s1)" by (cases "cache_static_assets h s0")
  obtain o2 s2 where r2: "cache_critical_images h s1 = (o2, s2)" by (cases "cache_critical_images h s1")
  have "caches s1 name = caches s0 name"
    using cache_static_assets_other [OF assms(1), of h s0] r1 by simp
  moreover have "caches s2 name = caches s1 name"
    using cache_critical_images_other [OF assms(2), of h s1] r2 by simp
  ultimately have "caches s2 name = caches s name" by (simp add: s0_def)
  then show ?thesis
    using r1 r2 by (simp add: install_def s0_def [symmetric] Let_def split: outcome.splits)
qed

lemma installed_root:
  "cache_match (caches installed_worker STATIC_CACHE) (URL example_origin ''/'' []) =
     Some (ok_response ''/'')"
proof -
  have o1: "\<not> open_fails online_host STATIC_CACHE" and o2: "\<not> open_fails online_host IMAGE_CACHE"
    by (simp_all add: online_host_def)
  have st: "\<forall>p\<in>set STATIC_ASSETS.
      \<exists>d r. network online_host (request_of_path online_host p) = Resolves d r
        \<and> ok r \<and> \<not> put_rejects r"
    and im: "\<forall>p\<in>set CRITICAL_IMAGES.
      \<exists>d r. network online_host (request_of_path online_host p) = Resolves d r
        \<and> ok r \<and> \<not> put_rejects r"
    by (simp_all add: online_host_def)
  have n: "network online_host (request_of_path online_host ''/'') = Resolves 20 (ok_response ''/'')"
    by (simp add: online_host_def request_of_path_def)
  have "distinct STATIC_ASSETS" and "''/'' \<in> set STATIC_ASSETS"
    by (simp_all add: STATIC_ASSETS_def)
  then have "cache_match (caches installed_worker STATIC_CACHE)
      (url (request_of_path online_host ''/'')) = Some (ok_response ''/'')"
    unfolding installed_worker_def install_success(3) [OF o1 o2 st im]
    using n by (rule put_all_stores)
  then show ?thesis by (simp add: request_of_path_def online_host_def)
qed

text \<open>
  Claim C1, as amended: \<^verbatim>\<open>self.skipWaiting()\<close> is called exactly when both install-time bulk
  writes succeed. When either of them throws, the promise handed to \<^verbatim>\<open>event.waitUntil\<close>
  still resolves and the failure is written to the console, but \<^verbatim>\<open>skipWaiting\<close> is not
  called: the call stands in the \<^verbatim>\<open>then\<close> callback, which a rejection skips.
\<close>

theorem install_skip_waiting:
  assumes "\<not> skipWaiting_called s"
  shows "(skipWaiting_called (snd (install h s)) \<longleftrightarrow>
            fst (cache_static_assets h s) = Returned ()
            \<and> fst (cache_critical_images h s) = Returned ())
    \<and> ((\<exists>err. fst (cache_static_assets h s) = Thrown err)
          \<or> (\<exists>err. fst (cache_critical_images h s) = Thrown err) \<longrightarrow>
        fst (install h s) = Returned ()
        \<and> (\<exists>err. last (console (snd (install h s))) =
               Error (cross_mark @ '' Service Worker: Installation failed'') err)
        \<and> \<not> skipWaiting_called (snd (install h s)))"
proof -
  define s0 where "s0 = console_log s (wrench @ '' Service Worker: Installing...'')"
  obtain o1 s1 where r1: "cache_static_assets h s0 = (o1, s1)" by (cases "cache_static_assets h s0")
  obtain o2 s2 where r2: "cache_critical_images h s1 = (o2, s2)" by (cases "cache_critical_images h s1")
  have o1: "fst (cache_static_assets h s) = o1" using r1 static_outcome [of h s s0] by simp
  have o2: "fst (cache_critical_images h s) = o2" using r2 images_outcome [of h s s1] by simp
  have "skipWaiting_called s1 = skipWaiting_called s0"
    using static_fields [of h s0] r1 by simp
  moreover have "skipWaiting_called s2 = skipWaiting_called s1"
    using images_fields [of h s1] r2 by simp
  ultimately have sk: "\<not> skipWaiting_called s2"
    using assms by (simp add: s0_def console_log_def)
  have inst: "install h s =
      (case promise_all o1 o2 of
         Returned u \<Rightarrow>
           (Returned (),
            (console_log s2 (check_mark @ '' Service Worker: Installation complete''))
              \<lparr>skipWaiting_called := True\<rparr>)
       | Thrown err \<Rightarrow>
           (Returned (),
            console_error s2 (cross_mark @ '' Service Worker: Installation failed'') err)
       | Pending \<Rightarrow> (Pending, s2))"
    using r1 r2 by (simp add: install_def s0_def Let_def)
  show ?thesis
  proof (cases "promise_all o1 o2")
    case (Returned u)
    then have "o1 = Returned () \<and> o2 = Returned ()" by (simp add: promise_all_Returned)
    with Returned inst o1 o2 show ?thesis by simp
  next
    case (Thrown err)
    then have "\<not> (o1 = Returned () \<and> o2 = Returned ())" by auto
    with Thrown inst o1 o2 sk show ?thesis by (simp add: console_error_def)
  next
    case Pending
    then have "\<not> (o1 = Returned () \<and> o2 = Returned ())" by auto
    moreover from Pending have "\<not> ((\<exists>err. o1 = Thrown err) \<or> (\<exists>err. o2 = Thrown err))"
      using promise_all_Thrown [of o1 o2] by simp
    ultimately show ?thesis using Pending inst o1 o2 sk by simp
  qed
qed

theorem install_skip_waiting_witness:
  "\<not> skipWaiting_called new_worker
   \<and> fst (cache_static_assets online_host new_worker) = Returned ()
   \<and> fst (cache_critical_images online_host new_worker) = Returned ()
   \<and> skipWaiting_called (snd (install online_host new_worker))
   \<and> (\<exists>err. fst (cache_static_assets offline_host new_worker) = Thrown err)
   \<and> fst (install offline_host new_worker) = Returned ()
   \<and> (\<exists>err. last (console (snd (install offline_host new_worker))) =
               Error (cross_mark @ '' Service Worker: Installation failed'') err)
   \<and> \<not> skipWaiting_called (snd (install offline_host new_worker))"
proof -
  have n: "\<not> skipWaiting_called new_worker" by (simp add: new_worker_def)
  have a: "fst (cache_static_assets online_host new_worker) = Returned ()"
    by (simp add: cache_static_assets_def addAll_def online_host_def STATIC_ASSETS_def
        fetch_failed_def Let_def)
  have b: "fst (cache_critical_images online_host new_worker) = Returned ()"
    by (simp add: cache_critical_images_def addAll_def online_host_def CRITICAL_IMAGES_def
        fetch_failed_def Let_def)
  have c: "fst (cache_static_assets offline_host new_worker) = Thrown TypeError"
    by (simp add: cache_static_assets_def addAll_def offline_host_def STATIC_ASSETS_def
        fetch_failed_def Let_def)
  show ?thesis
    using install_skip_waiting [OF n, of online_host] install_skip_waiting [OF n, of offline_host]
      n a b c
    by blast
qed

text \<open>The claim as stated (skip-waiting is invoked for every outcome of the two writes)
  fails on a host whose network rejects the fetches of the manifest.\<close>

theorem install_skip_waiting_counterexample:
  "fst (cache_static_assets offline_host new_worker) = Thrown TypeError
   \<and> fst (install offline_host new_worker) = Returned ()
   \<and> \<not> skipWaiting_called (snd (install offline_host new_worker))"
  by (simp add: install_def cache_static_assets_def cache_critical_images_def addAll_def
      offline_host_def new_worker_def STATIC_ASSETS_def CRITICAL_IMAGES_def fetch_failed_def
      console_log_def console_error_def Let_def)

text \<open>
  Claim C9: the offline-page fallback first looks up the root path in the static partition
  and returns that entry when there is one; only without it does it synthesize the offline
  page. After an installation whose writes all succeeded, the fallback therefore returns
  the response that was fetched for the root path.
\<close>

theorem offline_page_prefers_cached_root:
  assumes "\<not> open_fails h' STATIC_CACHE"
  shows "getOfflinePage h' s =
      (case cache_match (caches s STATIC_CACHE) (URL (location_origin h') ''/'' []) of
         Some home \<Rightarrow> (Returned home, s)
       | None \<Rightarrow> (Returned synthesized_offline_page, s))
    \<and> (\<not> open_fails h STATIC_CACHE \<and> \<not> open_fails h IMAGE_CACHE
        \<and> (\<forall>p\<in>set (STATIC_ASSETS @ CRITICAL_IMAGES).
              \<exists>d r. network h (request_of_path h p) = Resolves d r \<and> ok r \<and> \<not> put_rejects r)
        \<and> network h (request_of_path h ''/'') = Resolves d home
        \<and> location_origin h' = location_origin h \<longrightarrow>
        fst (install h s) = Returned ()
        \<and> getOfflinePage h' (snd (install h s)) = (Returned home, snd (install h s)))"
proof (intro conjI impI)
  show g: "getOfflinePage h' s =
      (case cache_match (caches s STATIC_CACHE) (URL (location_origin h') ''/'' []) of
         Some home \<Rightarrow> (Returned home, s)
       | None \<Rightarrow> (Returned synthesized_offline_page, s))" for s
    using assms by (simp add: getOfflinePage_def request_of_path_def split: option.splits)
  assume a: "\<not> open_fails h STATIC_CACHE \<and> \<not> open_fails h IMAGE_CACHE
        \<and> (\<forall>p\<in>set (STATIC_ASSETS @ CRITICAL_IMAGES).
              \<exists>d r. network h (request_of_path h p) = Resolves d r \<and> ok r \<and> \<not> put_rejects r)
        \<and> network h (request_of_path h ''/'') = Resolves d home
        \<and> location_origin h' = location_origin h"
  then have st: "\<forall>p\<in>set STATIC_ASSETS.
      \<exists>d r. network h (request_of_path h p) = Resolves d r \<and> ok r \<and> \<not> put_rejects r"
    and im: "\<forall>p\<in>set CRITICAL_IMAGES.
      \<exists>d r. network h (request_of_path h p) = Resolves d r \<and> ok r \<and> \<not> put_rejects r"
    by auto
  from a have o1: "\<not> open_fails h STATIC_CACHE" and o2: "\<not> open_fails h IMAGE_CACHE" by auto
  show "fst (install h s) = Returned ()"
    by (rule install_success(1) [OF o1 o2 st im])
  have "distinct STATIC_ASSETS" and "''/'' \<in> set STATIC_ASSETS"
    by (simp_all add: STATIC_ASSETS_def)
  then have "cache_match (caches (snd (install h s)) STATIC_CACHE) (url (request_of_path h ''/''))
      = Some home"
    using a by (simp add: install_success(3) [OF o1 o2 st im] put_all_stores)
  moreover have "url (request_of_path h ''/'') = URL (location_origin h') ''/'' []"
    using a by (simp add: request_of_path_def)
  ultimately show "getOfflinePage h' (snd (install h s)) = (Returned home, snd (install h s))"
    by (simp add: g)
qed

theorem offline_page_prefers_cached_root_witness:
  "getOfflinePage offline_host new_worker = (Returned synthesized_offline_page, new_worker)
   \<and> fst (install online_host new_worker) = Returned ()
   \<and> getOfflinePage offline_host (snd (install online_host new_worker)) =
       (Returned (ok_response ''/''), snd (install online_host new_worker))"
proof -
  have a: "\<not> open_fails offline_host STATIC_CACHE" by (simp add: offline_host_def)
  have b: "\<not> open_fails online_host STATIC_CACHE \<and> \<not> open_fails online_host IMAGE_CACHE
        \<and> (\<forall>p\<in>set (STATIC_ASSETS @ CRITICAL_IMAGES).
              \<exists>d r. network online_host (request_of_path online_host p) = Resolves d r
                \<and> ok r \<and> \<not> put_rejects r)
        \<and> network online_host (request_of_path online_host ''/'') = Resolves 20 (ok_response ''/'')
        \<and> location_origin offline_host = location_origin online_host"
    by (simp add: online_host_def offline_host_def request_of_path_def)
  have c: "cache_match (caches new_worker STATIC_CACHE) (URL (location_origin offline_host) ''/'' [])
      = None"
    by (simp add: new_worker_def cache_match_def)
  show ?thesis
    using offline_page_prefers_cached_root [OF a, of new_worker online_host 20 "ok_response ''/''"]
      b c
    by simp
qed

subsection \<open>Properties of eviction\<close>

lemma fold_cache_delete:
  "fold (\<lambda>key c. cache_delete c key) ks c = filter (\<lambda>e. fst e \<notin> set ks) c"
  by (induction ks arbitrary: c) (auto simp: cache_delete_def intro: filter_cong)

lemma filter_oldest_distinct:
  assumes "distinct (map fst c)"
  shows "filter (\<lambda>e. fst e \<notin> set (take k (map fst c))) c = drop k c"
proof -
  have c: "c = take k c @ drop k c" by simp
  have "filter (\<lambda>e. fst e \<notin> set (take k (map fst c))) (take k c) = []"
    by (auto simp: filter_empty_conv take_map)
  moreover have "filter (\<lambda>e. fst e \<notin> set (take k (map fst c))) (drop k c) = drop k c"
  proof -
    have "distinct (map fst (take k c) @ map fst (drop k c))"
      using assms by (metis append_take_drop_id map_append)
    then have "set (map fst (take k c)) \<inter> set (map fst (drop k c)) = {}" by simp
    then show ?thesis by (auto simp: filter_id_conv take_map)
  qed
  ultimately show ?thesis by (subst c, simp only: filter_append) simp
qed

lemma limitCacheSize_cache:
  assumes "\<not> open_fails h name"
  shows "fst (limitCacheSize h s name maxSize) = Returned ()"
    and "caches (snd (limitCacheSize h s name maxSize)) name =
      filter (\<lambda>e. fst e \<notin> set (take (length (caches s name) - maxSize) (cache_keys (caches s name))))
        (caches s name)"
    and "name' \<noteq> name \<Longrightarrow> caches (snd (limitCacheSize h s name maxSize)) name' = caches s name'"
  using assms
  by (simp_all add: limitCacheSize_def Let_def fold_cache_delete cache_keys_def)

lemma limitCacheSize_case:
  assumes "\<not> open_fails h name"
  shows "(case limitCacheSize h s name maxSize of
            (Returned u, s2) \<Rightarrow> f s2
          | (Thrown err, s2) \<Rightarrow> g err s2
          | (Pending, s2) \<Rightarrow> k s2) = f (snd (limitCacheSize h s name maxSize))"
  using limitCacheSize_cache(1) [OF assms, of s maxSize]
  by (cases "limitCacheSize h s name maxSize") simp

lemma limitCacheSize_keys:
  assumes "\<not> open_fails h name" and "distinct (cache_keys (caches s name))"
  shows "cache_keys (caches (snd (limitCacheSize h s name maxSize)) name) =
    drop (length (caches s name) - maxSize) (cache_keys (caches s name))"
  using assms(2)
  by (simp add: limitCacheSize_cache(2) [OF assms(1)] cache_keys_def filter_oldest_distinct
      drop_map)

lemma cache_put_new_key:
  "u \<notin> set (cache_keys c) \<Longrightarrow> cache_keys (cache_put c u r) = cache_keys c @ [u]"
  by (induction c) (auto simp: cache_keys_def cache_put_def cache_delete_def)

lemma cache_match_None: "cache_match c u = None \<longleftrightarrow> u \<notin> set (cache_keys c)"
  by (simp add: cache_match_def cache_keys_def map_of_eq_None_iff)

lemma drop_before_put:
  "drop (length (drop (length ws - Suc L) ws) - L) (drop (length ws - Suc L) ws) @ [u] =
     drop (Suc (length ws) - Suc L) (ws @ [u])"
proof (cases "Suc L \<le> length ws")
  case True
  then have "Suc (length ws - Suc L) = length ws - L" by arith
  with True show ?thesis by (auto simp: Suc_diff_le)
next
  case False
  then show ?thesis by auto
qed

text \<open>An image request that misses the cache and is answered in time with a storable ok
  response: the eviction step trims the partition as it was before the put, and then the
  new entry lands.\<close>

lemma image_request_stored:
  assumes "\<not> open_fails h IMAGE_CACHE" and "isImage (pathname (url req))"
    and "url req \<notin> set (cache_keys (caches s IMAGE_CACHE))"
    and "distinct (cache_keys (caches s IMAGE_CACHE))"
    and "network h req = Resolves d r" and "d \<le> NETWORK_TIMEOUT" and "ok r" and "\<not> put_rejects r"
  shows "cache_keys (caches (snd (handleFetch h s req)) IMAGE_CACHE) =
    drop (length (caches s IMAGE_CACHE) - MAX_IMAGE_CACHE_SIZE) (cache_keys (caches s IMAGE_CACHE))
    @ [url req]"
proof -
  let ?s2 = "snd (limitCacheSize h s IMAGE_CACHE MAX_IMAGE_CACHE_SIZE)"
  have ns: "\<not> isStaticAsset (pathname (url req))"
    using assms(2) static_not_image by blast
  have miss: "cache_match (caches s IMAGE_CACHE) (url req) = None"
    using assms(3) by (simp add: cache_match_None)
  have "handleFetch h s req = (Returned r, put_unawaited ?s2 IMAGE_CACHE (url req) r)"
    using assms(1,2,5,6,7) ns miss
    by (simp add: handleFetch_def handleImage_def catch_fetch_error_def fetchWithTimeout_def
        limitCacheSize_case)
  then have c: "caches (snd (handleFetch h s req)) IMAGE_CACHE =
      cache_put (caches ?s2 IMAGE_CACHE) (url req) r"
    using assms(8) by (simp add: caches_put_unawaited)
  have k: "cache_keys (caches ?s2 IMAGE_CACHE) =
      drop (length (caches s IMAGE_CACHE) - MAX_IMAGE_CACHE_SIZE) (cache_keys (caches s IMAGE_CACHE))"
    by (rule limitCacheSize_keys [OF assms(1,4)])
  have "url req \<notin> set (cache_keys (caches ?s2 IMAGE_CACHE))"
    unfolding k using assms(3) by (blast dest: in_set_dropD)
  then show ?thesis
    unfolding c by (simp add: cache_put_new_key k)
qed

lemma image_requests_keys:
  assumes "\<not> open_fails h IMAGE_CACHE"
    and "length (caches s IMAGE_CACHE) \<le> Suc MAX_IMAGE_CACHE_SIZE"
  shows "distinct (cache_keys (caches s IMAGE_CACHE) @ map url reqs) \<Longrightarrow>
    \<forall>req\<in>set reqs. isImage (pathname (url req))
      \<and> (\<exists>d r. network h req = Resolves d r \<and> d \<le> NETWORK_TIMEOUT \<and> ok r \<and> \<not> put_rejects r) \<Longrightarrow>
    cache_keys (caches (foldl (\<lambda>s req. snd (handleFetch h s req)) s reqs) IMAGE_CACHE) =
      drop (length (cache_keys (caches s IMAGE_CACHE) @ map url reqs) - Suc MAX_IMAGE_CACHE_SIZE)
        (cache_keys (caches s IMAGE_CACHE) @ map url reqs)"
proof (induction reqs rule: rev_induct)
  case Nil
  then show ?case using assms(2) by (simp add: cache_keys_def)
next
  case (snoc req reqs)
  let ?s = "foldl (\<lambda>s req. snd (handleFetch h s req)) s reqs"
  let ?ws = "cache_keys (caches s IMAGE_CACHE) @ map url reqs"
  let ?L = "MAX_IMAGE_CACHE_SIZE"
  from snoc.prems have d: "distinct ?ws" and u: "url req \<notin> set ?ws" by simp_all
  from snoc.prems have all: "\<forall>req\<in>set reqs. isImage (pathname (url req))
      \<and> (\<exists>d r. network h req = Resolves d r \<and> d \<le> NETWORK_TIMEOUT \<and> ok r \<and> \<not> put_rejects r)"
    by simp
  from snoc.prems obtain dl r where img: "isImage (pathname (url req))"
    and net: "network h req = Resolves dl r" "dl \<le> NETWORK_TIMEOUT" "ok r" "\<not> put_rejects r"
    by auto
  have keys: "cache_keys (caches ?s IMAGE_CACHE) = drop (length ?ws - Suc ?L) ?ws"
    by (rule snoc.IH [OF d all])
  have nk: "url req \<notin> set (cache_keys (caches ?s IMAGE_CACHE))"
    unfolding keys using u by (blast dest: in_set_dropD)
  have dk: "distinct (cache_keys (caches ?s IMAGE_CACHE))"
    unfolding keys using d by (rule distinct_drop)
  have len: "length (caches ?s IMAGE_CACHE) = length (drop (length ?ws - Suc ?L) ?ws)"
    using keys by (metis cache_keys_def length_map)
  have "cache_keys (caches (snd (handleFetch h ?s req)) IMAGE_CACHE) =
      drop (length (caches ?s IMAGE_CACHE) - ?L) (cache_keys (caches ?s IMAGE_CACHE)) @ [url req]"
    by (rule image_request_stored [OF assms(1) img nk dk net])
  also have "\<dots> = drop (length (drop (length ?ws - Suc ?L) ?ws) - ?L)
      (drop (length ?ws - Suc ?L) ?ws) @ [url req]"
    by (simp only: keys len)
  also have "\<dots> = drop (Suc (length ?ws) - Suc ?L) (?ws @ [url req])"
    by (rule drop_before_put)
  finally have "cache_keys (caches (snd (handleFetch h ?s req)) IMAGE_CACHE) =
      drop (Suc (length ?ws) - Suc ?L) (?ws @ [url req])" .
  moreover have "cache_keys (caches s IMAGE_CACHE) @ map url (reqs @ [req]) = ?ws @ [url req]"
    by simp
  moreover have "foldl (\<lambda>s req. snd (handleFetch h s req)) s (reqs @ [req]) =
      snd (handleFetch h ?s req)"
    by simp
  ultimately show ?case
    by (simp only: length_append_singleton)
qed

lemma isImage_png: "isImage (p @ ''.png'')"
  by (simp add: isImage_spec suffix_def)

lemma image_requests_distinct: "distinct (map url (image_requests n))"
  by (simp add: image_requests_def get_def distinct_map comp_def inj_on_def)

text \<open>
  Claim C5 (after \<open>N\<close> writes of distinct keys into a partition bounded by \<open>L\<close>, with
  \<open>L < N\<close>, exactly the \<open>N - L\<close> entries written first are removed) does not hold of the
  strategies: the eviction step lists the keys before the entry of the put that is not
  awaited has landed. Served one after the other from an empty images partition, 51
  distinct images that the network answers with status 200 are all kept: the partition
  holds 51 entries, one more than its bound, and the image written first is still there.
\<close>

theorem eviction_misses_latest_put:
  "length (image_requests 51) = Suc MAX_IMAGE_CACHE_SIZE
   \<and> distinct (map url (image_requests 51))
   \<and> caches new_worker IMAGE_CACHE = []
   \<and> cache_keys (caches (foldl (\<lambda>s req. snd (handleFetch online_host s req)) new_worker
        (image_requests 51)) IMAGE_CACHE) = map url (image_requests 51)
   \<and> length (caches (foldl (\<lambda>s req. snd (handleFetch online_host s req)) new_worker
        (image_requests 51)) IMAGE_CACHE) = 51"
proof -
  let ?final = "foldl (\<lambda>s req. snd (handleFetch online_host s req)) new_worker (image_requests 51)"
  have e: "caches new_worker IMAGE_CACHE = []" by (simp add: new_worker_def)
  have n: "length (image_requests 51) = 51" by (simp add: image_requests_def)
  have 1: "\<not> open_fails online_host IMAGE_CACHE" by (simp add: online_host_def)
  have 2: "length (caches new_worker IMAGE_CACHE) \<le> Suc MAX_IMAGE_CACHE_SIZE" by (simp add: e)
  have 3: "distinct (cache_keys (caches new_worker IMAGE_CACHE) @ map url (image_requests 51))"
    using image_requests_distinct [of 51] by (simp add: e cache_keys_def)
  have 4: "\<forall>req\<in>set (image_requests 51). isImage (pathname (url req))
      \<and> (\<exists>d r. network online_host req = Resolves d r \<and> d \<le> NETWORK_TIMEOUT
            \<and> ok r \<and> \<not> put_rejects r)"
    by (auto simp: image_requests_def get_def online_host_def NETWORK_TIMEOUT_def
        isImage_png [of "''/assets/images/'' @ replicate i (CHR ''x'')" for i, simplified])
  have k: "cache_keys (caches ?final IMAGE_CACHE) = map url (image_requests 51)"
    using image_requests_keys [OF 1 2 3 4] by (simp add: e cache_keys_def n MAX_IMAGE_CACHE_SIZE_def)
  then have "length (caches ?final IMAGE_CACHE) = 51"
    using n by (metis cache_keys_def length_map)
  then show ?thesis
    using e n k image_requests_distinct [of 51] by (simp add: MAX_IMAGE_CACHE_SIZE_def)
qed

text \<open>
  Claim C2 (the images and the dynamic partition never exceed their bounds) does not hold
  for the HTML-page strategy, which stores a successful response in the dynamic partition
  and never runs the eviction step: from a dynamic partition with 30 entries, a successful
  request of a new page leaves 31.
\<close>

theorem html_page_exceeds_bound:
  "length (caches full_dynamic_worker DYNAMIC_CACHE) = MAX_DYNAMIC_CACHE_SIZE
   \<and> fst (handleFetch online_host full_dynamic_worker (get ''/about.html'')) =
       Returned (ok_response ''/about.html'')
   \<and> length (caches (snd (handleFetch online_host full_dynamic_worker (get ''/about.html'')))
        DYNAMIC_CACHE) = 31"
proof -
  let ?req = "get ''/about.html''"
  have 1: "\<not> isStaticAsset (pathname (url ?req))"
    by (simp add: get_def isStaticAsset_def endsWith_def)
  have 2: "\<not> isImage (pathname (url ?req))"
    by (simp add: get_def isImage_def endsWith_def)
  have 3: "isHTMLPage (pathname (url ?req))"
    by (simp add: get_def isHTMLPage_def endsWith_def)
  have 4: "fetchWithTimeout online_host ?req NETWORK_TIMEOUT = Returned (ok_response ''/about.html'')"
    by (simp add: fetchWithTimeout_def online_host_def NETWORK_TIMEOUT_def get_def)
  have 5: "\<not> open_fails online_host DYNAMIC_CACHE" "ok (ok_response ''/about.html'')"
    by (simp_all add: online_host_def ok_def ok_response_def)
  have h: "handleFetch online_host full_dynamic_worker ?req =
      (Returned (ok_response ''/about.html''),
       put_in full_dynamic_worker DYNAMIC_CACHE (url ?req) (ok_response ''/about.html''))"
    using 1 2 3 4 5
    by (simp add: handleFetch_def handleHTMLPage_def catch_fetch_error_def put_unawaited_def)
  have c: "caches full_dynamic_worker DYNAMIC_CACHE =
      map (\<lambda>n. (URL example_origin (''/api/item/'' @ string_of_nat n) [], ok_response ''item''))
        [0..<30]"
    by (simp add: full_dynamic_worker_def)
  have "cache_delete (caches full_dynamic_worker DYNAMIC_CACHE) (url ?req) =
      caches full_dynamic_worker DYNAMIC_CACHE"
    unfolding c cache_delete_def by (simp add: filter_map comp_def get_def)
  then have "length (caches (put_in full_dynamic_worker DYNAMIC_CACHE (url ?req)
      (ok_response ''/about.html'')) DYNAMIC_CACHE) = 31"
    by (simp add: caches_put_in cache_put_def c)
  then show ?thesis
    by (simp add: h c MAX_DYNAMIC_CACHE_SIZE_def)
qed

text \<open>The generic strategy, which does run the eviction step, exceeds the bound in the same
  way as the image strategy: the step lists the 30 keys before the new entry lands.\<close>

lemma generic_exceeds_bound:
  "length (caches (snd (handleFetch online_host full_dynamic_worker (get ''/api/data.json'')))
     DYNAMIC_CACHE) = 31"
proof -
  let ?req = "get ''/api/data.json''"
  have 1: "\<not> isStaticAsset (pathname (url ?req))"
    by (simp add: get_def isStaticAsset_def endsWith_def)
  have 2: "\<not> isImage (pathname (url ?req))"
    by (simp add: get_def isImage_def endsWith_def)
  have 3: "\<not> isHTMLPage (pathname (url ?req))"
    by (simp add: get_def isHTMLPage_def endsWith_def)
  have 4: "fetchWithTimeout online_host ?req NETWORK_TIMEOUT = Returned (ok_response ''/api/data.json'')"
    by (simp add: fetchWithTimeout_def online_host_def NETWORK_TIMEOUT_def get_def)
  have 5: "\<not> open_fails online_host DYNAMIC_CACHE" by (simp add: online_host_def)
  have c: "caches full_dynamic_worker DYNAMIC_CACHE =
      map (\<lambda>n. (URL example_origin (''/api/item/'' @ string_of_nat n) [], ok_response ''item''))
        [0..<30]"
    by (simp add: full_dynamic_worker_def)
  have l: "limitCacheSize online_host full_dynamic_worker DYNAMIC_CACHE MAX_DYNAMIC_CACHE_SIZE =
      (Returned (), full_dynamic_worker)"
    using 5 by (simp add: limitCacheSize_def c cache_keys_def MAX_DYNAMIC_CACHE_SIZE_def)
  have h: "handleFetch online_host full_dynamic_worker ?req =
      (Returned (ok_response ''/api/data.json''),
       put_in full_dynamic_worker DYNAMIC_CACHE (url ?req) (ok_response ''/api/data.json''))"
    using 1 2 3 4 5
    by (simp add: handleFetch_def handleDynamic_def catch_fetch_error_def l put_unawaited_def)
  have "cache_delete (caches full_dynamic_worker DYNAMIC_CACHE) (url ?req) =
      caches full_dynamic_worker DYNAMIC_CACHE"
    unfolding c cache_delete_def by (simp add: filter_map comp_def get_def)
  then show ?thesis
    by (simp add: h caches_put_in cache_put_def c)
qed

subsection \<open>Properties of the strategies\<close>

text \<open>
  Claim C8: a generic request (not a static asset, not an image, not an HTML page) whose
  network attempt fails or times out and for which the dynamic partition holds no entry is
  answered with status 503 and body \<open>Offline\<close>.
\<close>

theorem generic_offline_503:
  assumes "\<not> isStaticAsset (pathname (url req))" and "\<not> isImage (pathname (url req))"
    and "\<not> isHTMLPage (pathname (url req))"
    and "fetchWithTimeout h req NETWORK_TIMEOUT = Thrown err"
    and "cache_match (caches s DYNAMIC_CACHE) (url req) = None"
  shows "\<exists>r s'. handleFetch h s req = (Returned r, s') \<and> status r = 503 \<and> body r = ''Offline''"
  using assms
  by (simp add: handleFetch_def handleDynamic_def catch_fetch_error_def handleOfflineFallback_def
      new_Response_def)

theorem generic_offline_503_witness:
  "\<exists>r s'. handleFetch offline_host new_worker (get ''/data.v2/feed.json'') = (Returned r, s')
     \<and> status r = 503 \<and> body r = ''Offline''"
proof -
  let ?req = "get ''/data.v2/feed.json''"
  have 1: "\<not> isStaticAsset (pathname (url ?req))"
    by (simp add: get_def isStaticAsset_def endsWith_def)
  have 2: "\<not> isImage (pathname (url ?req))"
    by (simp add: get_def isImage_def endsWith_def)
  have 3: "\<not> isHTMLPage (pathname (url ?req))"
    by (simp add: get_def isHTMLPage_def endsWith_def)
  have 4: "fetchWithTimeout offline_host ?req NETWORK_TIMEOUT = Thrown NetworkError"
    by (simp add: fetchWithTimeout_def offline_host_def NETWORK_TIMEOUT_def)
  have 5: "cache_match (caches new_worker DYNAMIC_CACHE) (url ?req) = None"
    by (simp add: new_worker_def cache_match_def)
  show ?thesis by (rule generic_offline_503 [OF 1 2 3 4 5])
qed

text \<open>
  Claim C10: an image request that misses the images partition and whose fetch resolves
  within the timeout with a status that is not ok gets that response unchanged: nothing is
  stored, no eviction runs (the state is the same) and no placeholder is substituted.
\<close>

theorem image_not_ok_passthrough:
  assumes "isImage (pathname (url req))"
    and "\<not> open_fails h IMAGE_CACHE"
    and "cache_match (caches s IMAGE_CACHE) (url req) = None"
    and "network h req = Resolves d r" and "d \<le> NETWORK_TIMEOUT" and "\<not> ok r"
  shows "handleImage h s req = (Returned r, s) \<and> handleFetch h s req = (Returned r, s)"
  using assms static_not_image [of "pathname (url req)"]
  by (auto simp add: handleFetch_def handleImage_def catch_fetch_error_def fetchWithTimeout_def)

theorem image_not_ok_passthrough_witness:
  "handleImage (answering_host not_found) new_worker (get ''/assets/images/missing.png'') =
     (Returned not_found, new_worker)
   \<and> handleFetch (answering_host not_found) new_worker (get ''/assets/images/missing.png'') =
     (Returned not_found, new_worker)"
proof -
  let ?req = "get ''/assets/images/missing.png''"
  have 2: "isImage (pathname (url ?req))"
    by (simp add: get_def isImage_def endsWith_def)
  have 3: "\<not> open_fails (answering_host not_found) IMAGE_CACHE"
    by (simp add: answering_host_def)
  have 4: "cache_match (caches new_worker IMAGE_CACHE) (url ?req) = None"
    by (simp add: new_worker_def cache_match_def)
  have 5: "network (answering_host not_found) ?req = Resolves 20 not_found"
    by (simp add: answering_host_def)
  have 6: "(20::nat) \<le> NETWORK_TIMEOUT" by (simp add: NETWORK_TIMEOUT_def)
  have 7: "\<not> ok not_found" by (simp add: ok_def not_found_def)
  show ?thesis by (rule image_not_ok_passthrough [OF 2 3 4 5 6 7])
qed

text \<open>
  Claim C4, as amended: a static-asset request that misses the static partition waits for
  the network with no timeout and returns the response of the network. A copy ends up
  stored in the static partition exactly when the status is in the range 200 to 299
  (\<^verbatim>\<open>response.ok\<close>) and the cache accepts the response (its status is not 206 and its
  \<^verbatim>\<open>Vary\<close> header does not list \<open>*\<close>); any other response is returned and not stored.
  A network failure reaches the top-level offline fallback, which answers 503.
\<close>

theorem static_miss_network:
  assumes "isStaticAsset (pathname (url req))"
    and "\<not> open_fails h STATIC_CACHE"
    and "cache_match (caches s STATIC_CACHE) (url req) = None"
  shows "(\<forall>d r. network h req = Resolves d r \<longrightarrow>
            handleFetch h s req =
              (Returned r,
               if 200 \<le> status r \<and> status r \<le> 299 \<and> \<not> put_rejects r
               then put_in s STATIC_CACHE (url req) r else s)
            \<and> cache_match (caches (snd (handleFetch h s req)) STATIC_CACHE) (url req) =
               (if 200 \<le> status r \<and> status r \<le> 299 \<and> \<not> put_rejects r then Some r else None))
    \<and> (\<forall>d. network h req = Rejects d \<longrightarrow>
            handleStaticAsset h s req = (Thrown NetworkError, s)
            \<and> handleFetch h s req =
                handleOfflineFallback h
                  (console_error s ''Service Worker: Fetch error'' NetworkError) req
            \<and> fst (handleFetch h s req) =
                Returned (new_Response ''Offline'' 503 ''Service Unavailable'' []))
    \<and> (network h req = Never \<longrightarrow> handleFetch h s req = (Pending, s))"
proof (intro conjI allI impI)
  note defs = handleFetch_def handleStaticAsset_def catch_fetch_error_def fetch_def ok_def
    handleOfflineFallback_def put_unawaited_def
  note cls = static_not_image [OF assms(1)] static_not_html [OF assms(1)]
  fix d r
  assume n: "network h req = Resolves d r"
  show h: "handleFetch h s req =
      (Returned r,
       if 200 \<le> status r \<and> status r \<le> 299 \<and> \<not> put_rejects r
       then put_in s STATIC_CACHE (url req) r else s)"
    using assms n by (simp add: defs)
  show "cache_match (caches (snd (handleFetch h s req)) STATIC_CACHE) (url req) =
      (if 200 \<le> status r \<and> status r \<le> 299 \<and> \<not> put_rejects r then Some r else None)"
    using assms(3) by (simp add: h caches_put_in cache_match_put)
next
  fix d
  assume n: "network h req = Rejects d"
  show "handleStaticAsset h s req = (Thrown NetworkError, s)"
    using assms n by (simp add: handleStaticAsset_def fetch_def)
  then show "handleFetch h s req =
      handleOfflineFallback h (console_error s ''Service Worker: Fetch error'' NetworkError) req"
    using assms(1) by (simp add: handleFetch_def catch_fetch_error_def)
  then show "fst (handleFetch h s req) =
      Returned (new_Response ''Offline'' 503 ''Service Unavailable'' [])"
    using static_not_image [OF assms(1)] static_not_html [OF assms(1)]
    by (simp add: handleOfflineFallback_def)
next
  assume "network h req = Never"
  then show "handleFetch h s req = (Pending, s)"
    using assms
    by (simp add: handleFetch_def handleStaticAsset_def catch_fetch_error_def fetch_def)
qed

theorem static_miss_network_witness:
  "handleFetch slow_host new_worker (get ''/styles/theme.css'') =
     (Returned (ok_response ''/styles/theme.css''),
      put_in new_worker STATIC_CACHE (url (get ''/styles/theme.css''))
        (ok_response ''/styles/theme.css''))
   \<and> cache_match
        (caches (snd (handleFetch slow_host new_worker (get ''/styles/theme.css''))) STATIC_CACHE)
        (url (get ''/styles/theme.css'')) = Some (ok_response ''/styles/theme.css'')
   \<and> handleFetch (answering_host not_found) new_worker (get ''/styles/theme.css'') =
     (Returned not_found, new_worker)
   \<and> handleFetch (answering_host partial_content) new_worker (get ''/styles/theme.css'') =
     (Returned partial_content, new_worker)
   \<and> fst (handleFetch offline_host new_worker (get ''/styles/theme.css'')) =
     Returned (new_Response ''Offline'' 503 ''Service Unavailable'' [])
   \<and> handleFetch hanging_host new_worker (get ''/styles/theme.css'') = (Pending, new_worker)"
proof -
  let ?req = "get ''/styles/theme.css''"
  have 1: "isStaticAsset (pathname (url ?req))"
    by (simp add: get_def isStaticAsset_def endsWith_def)
  have 2: "cache_match (caches new_worker STATIC_CACHE) (url ?req) = None"
    by (simp add: new_worker_def cache_match_def)
  have o: "\<not> open_fails slow_host STATIC_CACHE" "\<not> open_fails (answering_host r) STATIC_CACHE"
    "\<not> open_fails offline_host STATIC_CACHE" "\<not> open_fails hanging_host STATIC_CACHE" for r
    by (simp_all add: slow_host_def answering_host_def offline_host_def hanging_host_def)
  have n: "network slow_host ?req = Resolves 10000 (ok_response ''/styles/theme.css'')"
    "network (answering_host r) ?req = Resolves 20 r"
    "network offline_host ?req = Rejects 0" "network hanging_host ?req = Never" for r
    by (simp_all add: slow_host_def answering_host_def offline_host_def hanging_host_def get_def)
  have s: "status (ok_response ''/styles/theme.css'') = 200" "status not_found = 404"
    "put_rejects partial_content"
    by (simp_all add: ok_response_def not_found_def partial_content_def put_rejects_def)
  have a: "handleFetch slow_host new_worker ?req =
      (Returned (ok_response ''/styles/theme.css''),
       put_in new_worker STATIC_CACHE (url ?req) (ok_response ''/styles/theme.css''))"
    "cache_match (caches (snd (handleFetch slow_host new_worker ?req)) STATIC_CACHE) (url ?req) =
      Some (ok_response ''/styles/theme.css'')"
    using static_miss_network [OF 1 o(1) 2] n(1) s(1)
    by (simp_all add: caches_put_in cache_match_put)
  have b: "handleFetch (answering_host not_found) new_worker ?req = (Returned not_found, new_worker)"
    using static_miss_network [OF 1 o(2) 2, of not_found] n(2) [of not_found] s(2) by simp
  have b': "handleFetch (answering_host partial_content) new_worker ?req =
      (Returned partial_content, new_worker)"
    using static_miss_network [OF 1 o(2) 2, of partial_content] n(2) [of partial_content] s(3)
    by simp
  have c: "fst (handleFetch offline_host new_worker ?req) =
      Returned (new_Response ''Offline'' 503 ''Service Unavailable'' [])"
    using static_miss_network [OF 1 o(3) 2] n(3) by blast
  have d: "handleFetch hanging_host new_worker ?req = (Pending, new_worker)"
    using static_miss_network [OF 1 o(4) 2] n(4) by blast
  show ?thesis using a b b' c d by (intro conjI)
qed

text \<open>The claim as stated (stored exactly when the status is in the range 2xx to 3xx)
  fails for a response of status 304, which is returned and not stored, and for a response
  of status 206, which the cache refuses.\<close>

theorem static_miss_network_counterexample:
  "isStaticAsset (pathname (url (get ''/styles/theme.css'')))
   \<and> cache_match (caches new_worker STATIC_CACHE) (url (get ''/styles/theme.css'')) = None
   \<and> network (answering_host not_modified) (get ''/styles/theme.css'') = Resolves 20 not_modified
   \<and> 200 \<le> status not_modified \<and> status not_modified \<le> 399
   \<and> handleFetch (answering_host not_modified) new_worker (get ''/styles/theme.css'') =
       (Returned not_modified, new_worker)
   \<and> cache_match
        (caches (snd (handleFetch (answering_host not_modified) new_worker (get ''/styles/theme.css'')))
           STATIC_CACHE)
        (url (get ''/styles/theme.css'')) = None
   \<and> network (answering_host partial_content) (get ''/styles/theme.css'') =
       Resolves 20 partial_content
   \<and> 200 \<le> status partial_content \<and> status partial_content \<le> 399
   \<and> cache_match
        (caches (snd (handleFetch (answering_host partial_content) new_worker
           (get ''/styles/theme.css''))) STATIC_CACHE)
        (url (get ''/styles/theme.css'')) = None"
proof -
  let ?req = "get ''/styles/theme.css''"
  have 1: "isStaticAsset (pathname (url ?req))"
    by (simp add: get_def isStaticAsset_def endsWith_def)
  have 2: "cache_match (caches new_worker STATIC_CACHE) (url ?req) = None"
    by (simp add: new_worker_def cache_match_def)
  have 3: "network (answering_host r) ?req = Resolves 20 r"
    "\<not> open_fails (answering_host r) STATIC_CACHE" for r
    by (simp_all add: answering_host_def)
  have 4: "200 \<le> status not_modified \<and> status not_modified \<le> 399" "\<not> ok not_modified"
    "200 \<le> status partial_content \<and> status partial_content \<le> 399" "put_rejects partial_content"
    by (simp_all add: not_modified_def partial_content_def ok_def put_rejects_def)
  have 5: "handleFetch (answering_host not_modified) new_worker ?req =
      (Returned not_modified, new_worker)"
    using 1 2 3 4
    by (simp add: handleFetch_def handleStaticAsset_def catch_fetch_error_def fetch_def)
  have 6: "handleFetch (answering_host partial_content) new_worker ?req =
      (Returned partial_content, new_worker)"
    using 1 2 3 4
    by (simp add: handleFetch_def handleStaticAsset_def catch_fetch_error_def fetch_def
        put_unawaited_def)
  show ?thesis using 1 2 3 4 by (simp add: 5 6)
qed

lemma offline_page_shape:
  "status synthesized_offline_page = 200"
  "map_of (headers synthesized_offline_page) ''Content-Type'' = Some ''text/html''"
  "map_of (headers synthesized_offline_page) ''Cache-Control'' = Some ''no-cache''"
  by (simp_all add: synthesized_offline_page_def new_Response_def)

lemma offline_page_text: "includes_str (body synthesized_offline_page) ''You're Offline''"
  by (simp add: synthesized_offline_page_def new_Response_def offline_html_def mobile_phone_def)

text \<open>
  Claim C3, as amended: for an HTML-page request whose network attempt fails or times out,
  the dynamic partition is consulted and its entry for the request is returned when there
  is one; when there is none, the root page cached in the static partition is returned if
  present, and otherwise the synthesized offline page, which has status 200, content type
  \<open>text/html\<close>, a no-cache directive and the text \<open>You're Offline\<close> in its body.
\<close>

theorem html_offline_fallback:
  assumes "\<not> isStaticAsset (pathname (url req))" and "\<not> isImage (pathname (url req))"
    and "isHTMLPage (pathname (url req))"
    and "fetchWithTimeout h req NETWORK_TIMEOUT = Thrown err"
    and "\<not> open_fails h DYNAMIC_CACHE" and "\<not> open_fails h STATIC_CACHE"
  shows "handleFetch h s req =
      (Returned (case cache_match (caches s DYNAMIC_CACHE) (url req) of
                   Some cachedResponse \<Rightarrow> cachedResponse
                 | None \<Rightarrow>
                    (case cache_match (caches s STATIC_CACHE) (URL (location_origin h) ''/'' []) of
                       Some home \<Rightarrow> home
                     | None \<Rightarrow> synthesized_offline_page)), s)
    \<and> status synthesized_offline_page = 200
    \<and> map_of (headers synthesized_offline_page) ''Content-Type'' = Some ''text/html''
    \<and> map_of (headers synthesized_offline_page) ''Cache-Control'' = Some ''no-cache''
    \<and> includes_str (body synthesized_offline_page) ''You're Offline''"
  using assms offline_page_text
  by (simp add: handleFetch_def handleHTMLPage_def catch_fetch_error_def getOfflinePage_def
      request_of_path_def offline_page_shape split: option.splits)

theorem html_offline_fallback_witness:
  "handleFetch offline_host new_worker (get ''/about.html'') =
     (Returned synthesized_offline_page, new_worker)
   \<and> status synthesized_offline_page = 200
   \<and> map_of (headers synthesized_offline_page) ''Content-Type'' = Some ''text/html''
   \<and> map_of (headers synthesized_offline_page) ''Cache-Control'' = Some ''no-cache''
   \<and> includes_str (body synthesized_offline_page) ''You're Offline''"
proof -
  let ?req = "get ''/about.html''"
  have 1: "\<not> isStaticAsset (pathname (url ?req))"
    by (simp add: get_def isStaticAsset_def endsWith_def)
  have 2: "\<not> isImage (pathname (url ?req))"
    by (simp add: get_def isImage_def endsWith_def)
  have 3: "isHTMLPage (pathname (url ?req))"
    by (simp add: get_def isHTMLPage_def endsWith_def)
  have 4: "fetchWithTimeout offline_host ?req NETWORK_TIMEOUT = Thrown NetworkError"
    by (simp add: fetchWithTimeout_def offline_host_def NETWORK_TIMEOUT_def)
  have 5: "\<not> open_fails offline_host DYNAMIC_CACHE" and 6: "\<not> open_fails offline_host STATIC_CACHE"
    by (simp_all add: offline_host_def)
  have 7: "cache_match (caches new_worker DYNAMIC_CACHE) (url ?req) = None"
    "cache_match (caches new_worker STATIC_CACHE) (URL (location_origin offline_host) ''/'' []) = None"
    by (simp_all add: new_worker_def cache_match_def)
  show ?thesis
    using html_offline_fallback [OF 1 2 3 4 5 6, of new_worker] 7 by simp
qed

text \<open>The claim as stated (without an entry in the dynamic partition the synthesized page
  is returned) fails after a successful installation: the cached root page is returned.\<close>

theorem html_offline_fallback_counterexample:
  "isHTMLPage (pathname (url (get ''/about.html'')))
   \<and> fetchWithTimeout offline_host (get ''/about.html'') NETWORK_TIMEOUT = Thrown NetworkError
   \<and> cache_match (caches installed_worker DYNAMIC_CACHE) (url (get ''/about.html'')) = None
   \<and> fst (handleFetch offline_host installed_worker (get ''/about.html'')) =
       Returned (ok_response ''/'')
   \<and> \<not> includes_str (body (ok_response ''/'')) ''You're Offline''"
proof -
  let ?req = "get ''/about.html''"
  have 1: "\<not> isStaticAsset (pathname (url ?req))"
    by (simp add: get_def isStaticAsset_def endsWith_def)
  have 2: "\<not> isImage (pathname (url ?req))"
    by (simp add: get_def isImage_def endsWith_def)
  have 3: "isHTMLPage (pathname (url ?req))"
    by (simp add: get_def isHTMLPage_def endsWith_def)
  have 4: "fetchWithTimeout offline_host ?req NETWORK_TIMEOUT = Thrown NetworkError"
    by (simp add: fetchWithTimeout_def offline_host_def NETWORK_TIMEOUT_def)
  have 5: "cache_match (caches installed_worker DYNAMIC_CACHE) (url ?req) = None"
    by (simp add: installed_worker_def install_other new_worker_def cache_match_def)
  have 6: "\<not> open_fails offline_host DYNAMIC_CACHE" "\<not> open_fails offline_host STATIC_CACHE"
    "location_origin offline_host = example_origin"
    by (simp_all add: offline_host_def)
  have "fst (handleFetch offline_host installed_worker ?req) = Returned (ok_response ''/'')"
    using 1 2 3 4 5 6 installed_root
    by (simp add: handleFetch_def handleHTMLPage_def catch_fetch_error_def getOfflinePage_def
        request_of_path_def)
  moreover have "\<not> includes_str (body (ok_response ''/'')) ''You're Offline''"
    by (simp add: ok_response_def)
  ultimately show ?thesis using 3 4 5 by simp
qed

text \<open>Whatever fails, a static asset and a generic request are never answered with an
  error: the fallback answers them 503 without touching the cache.\<close>

lemma static_never_rejects:
  assumes "isStaticAsset (pathname (url req))"
  shows "fst (handleFetch h s req) \<noteq> Thrown err"
  using assms static_not_image [OF assms] static_not_html [OF assms]
  by (simp add: handleFetch_def handleStaticAsset_def catch_fetch_error_def fetch_def
      handleOfflineFallback_def split: option.splits net_outcome.splits)

lemma generic_never_rejects:
  assumes "\<not> isStaticAsset (pathname (url req))" and "\<not> isImage (pathname (url req))"
    and "\<not> isHTMLPage (pathname (url req))"
  shows "fst (handleFetch h s req) \<noteq> Thrown err"
proof (cases "open_fails h DYNAMIC_CACHE")
  case True
  with assms show ?thesis
    by (simp add: handleFetch_def handleDynamic_def catch_fetch_error_def
        handleOfflineFallback_def)
next
  case False
  with assms show ?thesis
    by (simp add: handleFetch_def handleDynamic_def catch_fetch_error_def fetchWithTimeout_def
        limitCacheSize_case split: option.splits net_outcome.splits)
qed

text \<open>
  Claim C6 (the routing path never propagates an error; every failure of classification,
  cache access or network is converted by the top-level offline fallback into a
  synthesized response, at worst a 503) does not hold when the cache storage cannot be
  opened: for an HTML page and for an image the fallback opens a partition again, outside
  any \<^verbatim>\<open>try\<close>, and its error leaves \<^verbatim>\<open>handleFetch\<close>; a static asset and a generic request
  get the synthesized 503 on the same host.
\<close>

theorem fallback_rejects_on_broken_storage:
  "request_method (get ''/index.html'') = ''GET''
   \<and> origin (url (get ''/index.html'')) = location_origin broken_storage_host
   \<and> on_fetch broken_storage_host new_worker (get ''/index.html'') =
       Some (handleFetch broken_storage_host new_worker (get ''/index.html''))
   \<and> fst (handleFetch broken_storage_host new_worker (get ''/index.html'')) = Thrown CacheError
   \<and> fst (handleFetch broken_storage_host new_worker (get ''/assets/images/hero.png'')) =
       Thrown CacheError
   \<and> fst (handleFetch broken_storage_host new_worker (get ''/styles/main.css'')) =
       Returned (new_Response ''Offline'' 503 ''Service Unavailable'' [])
   \<and> fst (handleFetch broken_storage_host new_worker (get ''/api/data.json'')) =
       Returned (new_Response ''Offline'' 503 ''Service Unavailable'' [])"
  by (simp add: on_fetch_def handleFetch_def handleStaticAsset_def handleDynamic_def
      handleHTMLPage_def handleImage_def catch_fetch_error_def handleOfflineFallback_def
      getOfflinePage_def getPlaceholderImage_def broken_storage_host_def get_def
      isStaticAsset_def isImage_def isHTMLPage_def endsWith_def)

end
